theory Spec2Isabelle
  imports Main "HOL-Library.Stream"
begin

section \<open>Alpha assistant: command dispatch and dialogue engine\<close>

text \<open>
  A shallow embedding of \<^verbatim>\<open>alpha_assistant.py\<close>. Every Python function of the
  dispatch engine is a HOL function of the same name that takes the state of the outside
  world and returns it updated. The world holds what the program reads (microphone,
  keyboard, environment variables, files, clock, remote services) and what it writes (the
  ordered list of things said, logged, prompted, opened and sent).
\<close>

subsection \<open>Python string operations\<close>

text \<open>
  A Python \<^verbatim>\<open>str\<close> is a \<^typ>\<open>string\<close>. Characters in the ASCII range behave as in
  Python; code points above 127 are carried along uninterpreted (never white space, never
  changed by \<^verbatim>\<open>lower\<close>).
\<close>

text \<open>\<^verbatim>\<open>s.startswith(p)\<close>\<close>

fun starts_with :: "string \<Rightarrow> string \<Rightarrow> bool" where
  "starts_with s [] = True"
| "starts_with [] (p # ps) = False"
| "starts_with (c # cs) (p # ps) = (c = p \<and> starts_with cs ps)"

text \<open>\<^verbatim>\<open>sub in s\<close>: \<open>sub\<close> occurs in \<open>s\<close> as a contiguous substring.\<close>

fun str_contains :: "string \<Rightarrow> string \<Rightarrow> bool" where
  "str_contains sub [] = (sub = [])"
| "str_contains sub (c # cs) = (starts_with (c # cs) sub \<or> str_contains sub cs)"

text \<open>
  \<^verbatim>\<open>s.replace(old, new)\<close>: one pass from the left over non-overlapping occurrences.
  For an empty \<open>old\<close>, Python puts \<open>new\<close> before every character and at the end.
\<close>

function str_replace :: "string \<Rightarrow> string \<Rightarrow> string \<Rightarrow> string" where
  "str_replace [] old new = (if old = [] then new else [])"
| "str_replace (c # cs) old new =
     (if old = [] then new @ c # str_replace cs old new
      else if starts_with (c # cs) old
        then new @ str_replace (drop (length old) (c # cs)) old new
      else c # str_replace cs old new)"
  by pat_completeness auto
termination
  by (relation "measure (\<lambda>(s, old, new). length s)") auto

text \<open>
  \<^verbatim>\<open>c.isspace()\<close> on ASCII: tab, line feed, vertical tab, form feed, carriage return,
  the four separators 0x1C to 0x1F, and the space.
\<close>

definition is_space :: "char \<Rightarrow> bool" where
  "is_space c = (c \<in> set [CHR 0x09, CHR 0x0A, CHR 0x0B, CHR 0x0C, CHR 0x0D,
                           CHR 0x1C, CHR 0x1D, CHR 0x1E, CHR 0x1F, CHR 0x20])"

text \<open>\<^verbatim>\<open>s.strip()\<close>\<close>

definition str_strip :: "string \<Rightarrow> string" where
  "str_strip s = rev (dropWhile is_space (rev (dropWhile is_space s)))"

definition lower_char :: "char \<Rightarrow> char" where
  "lower_char c =
     (case map_of (zip ''ABCDEFGHIJKLMNOPQRSTUVWXYZ'' ''abcdefghijklmnopqrstuvwxyz'') c of
        Some l \<Rightarrow> l
      | None \<Rightarrow> c)"

text \<open>\<^verbatim>\<open>s.lower()\<close>\<close>

definition str_lower :: "string \<Rightarrow> string" where
  "str_lower s = map lower_char s"

subsection \<open>The outside world\<close>

text \<open>
  What \<^verbatim>\<open>recognize_google\<close> does with a captured audio clip: it returns the
  transcript, or raises one of the exceptions that \<^verbatim>\<open>take_command\<close> tells apart.
\<close>

datatype recognition =
    Transcript string
  | UnknownValueError
  | RequestError
  | OtherException

text \<open>
  What \<^verbatim>\<open>Recognizer.listen\<close> does on one call: no speech before the timeout, or an
  audio clip (given here by what recognition will make of it).
\<close>

datatype listening = WaitTimeoutError | Audio recognition

text \<open>What \<^verbatim>\<open>wikipedia.summary\<close> does for a term.\<close>

datatype wiki_result = Summary string | DisambiguationError | PageError | WikiException

text \<open>Effects on the outside world, in the order they happen.\<close>

datatype event =
    Said string                  \<comment> \<open>\<^verbatim>\<open>speak\<close>: printed and spoken\<close>
  | Logged string                \<comment> \<open>a \<^verbatim>\<open>logging\<close> record (its message text)\<close>
  | Prompted string              \<comment> \<open>the prompt of \<^verbatim>\<open>input\<close>\<close>
  | Opened string                \<comment> \<open>a browser tab opened on this URL\<close>
  | Played string                \<comment> \<open>\<^verbatim>\<open>pywhatkit.playonyt\<close>\<close>
  | Mailed string string string  \<comment> \<open>\<^verbatim>\<open>sendmail\<close>: sender, recipient, message\<close>

text \<open>
  A record of every entry into a capability handler, with its arguments. The Python
  program keeps no such record; the model does, so that "this handler ran with these
  arguments" can be stated.
\<close>

datatype call =
    Call_tell_time
  | Call_tell_date
  | Call_tell_joke
  | Call_cpu_status
  | Call_send_email string string string
  | Call_take_screenshot
  | Call_search_in_chrome string
  | Call_wiki_lookup string nat
  | Call_play_song string
  | Call_remember_to_file string string
  | Call_read_memory string

record world =
  listens :: "listening stream"        \<comment> \<open>outcome of each successive \<^verbatim>\<open>listen\<close>\<close>
  typed :: "string stream"             \<comment> \<open>lines the user types, one per \<^verbatim>\<open>input\<close>\<close>
  environ :: "string \<rightharpoonup> string"       \<comment> \<open>environment variables\<close>
  files :: "string \<rightharpoonup> string"         \<comment> \<open>text files by name\<close>
  fs_fault :: bool                     \<comment> \<open>file access raises\<close>
  smtp_fault :: bool                   \<comment> \<open>the SMTP session raises\<close>
  browser_fault :: bool                \<comment> \<open>\<^verbatim>\<open>webbrowser.open_new_tab\<close> raises\<close>
  youtube_fault :: bool                \<comment> \<open>\<^verbatim>\<open>playonyt\<close> raises\<close>
  clock_hour :: nat                    \<comment> \<open>\<^verbatim>\<open>datetime.now().hour\<close>\<close>
  clock_time :: string                 \<comment> \<open>now, formatted \<^verbatim>\<open>%I:%M:%S %p\<close>\<close>
  clock_date :: string                 \<comment> \<open>now, formatted \<^verbatim>\<open>%A, %d %B %Y\<close>\<close>
  joke_src :: "string option"          \<comment> \<open>\<^verbatim>\<open>pyjokes.get_joke()\<close>, None if it raises\<close>
  wiki_src :: "string \<Rightarrow> nat \<Rightarrow> wiki_result"
  cpu_src :: "(string \<times> string option) option"
    \<comment> \<open>CPU percentage and battery percentage if any, None if \<^verbatim>\<open>psutil\<close> raises\<close>
  shot_src :: "string option"          \<comment> \<open>path of the saved screenshot, None if it fails\<close>
  trace :: "event list"
  calls :: "call list"

text \<open>
  The model takes the file content read back to be the string written (no newline
  translation), the clock and the services to answer the same way throughout a run, and
  the keyboard to deliver a line whenever \<^verbatim>\<open>input\<close> asks for one. Exceptions are
  modelled where the source catches them; \<^verbatim>\<open>KeyboardInterrupt\<close> is not modelled.
\<close>

subsection \<open>Output and input primitives\<close>

definition speak :: "string \<Rightarrow> world \<Rightarrow> world" where
  "speak text w = (if text = [] then w else w\<lparr>trace := trace w @ [Said text]\<rparr>)"

definition log :: "string \<Rightarrow> world \<Rightarrow> world" where
  "log msg w = w\<lparr>trace := trace w @ [Logged msg]\<rparr>"

definition called :: "call \<Rightarrow> world \<Rightarrow> world" where
  "called c w = w\<lparr>calls := calls w @ [c]\<rparr>"

text \<open>\<^verbatim>\<open>input(prompt)\<close>\<close>

definition py_input :: "string \<Rightarrow> world \<Rightarrow> string \<times> world" where
  "py_input prompt w =
     (shd (typed w), w\<lparr>typed := stl (typed w), trace := trace w @ [Prompted prompt]\<rparr>)"

text \<open>\<^verbatim>\<open>return input("Type command: ").strip().lower()\<close>\<close>

definition typed_command :: "world \<Rightarrow> string \<times> world" where
  "typed_command w =
     (case py_input ''Type command: '' w of (line, w') \<Rightarrow> (str_lower (str_strip line), w'))"

definition take_command :: "world \<Rightarrow> string \<times> world" where
  "take_command w0 =
     (let w = speak ''Listening...'' w0;
          w = w\<lparr>listens := stl (listens w)\<rparr>
      in case shd (listens w0) of
           WaitTimeoutError \<Rightarrow>
             typed_command
               (speak ''No speech detected within the timeout. Please type your command.'' w)
         | Audio r \<Rightarrow>
             (let w = speak ''Recognizing...'' w
              in case r of
                   Transcript query \<Rightarrow>
                     (str_lower query, log (''Recognized query: '' @ query) w)
                 | UnknownValueError \<Rightarrow>
                     typed_command
                       (speak ''Sorry, I did not understand. Please type your command.'' w)
                 | RequestError \<Rightarrow>
                     typed_command
                       (speak ''Speech recognition service failed. Please type your command.''
                         (log ''Speech recognition request failed'' w))
                 | OtherException \<Rightarrow>
                     typed_command (log ''Unexpected error in take_command'' w)))"

subsection \<open>Capability handlers\<close>

definition get_time :: "world \<Rightarrow> string" where
  "get_time w = clock_time w"

definition get_date :: "world \<Rightarrow> string" where
  "get_date w = clock_date w"

definition tell_time :: "world \<Rightarrow> world" where
  "tell_time w0 =
     (let w = called Call_tell_time w0
      in speak (''The current time is '' @ get_time w) w)"

definition tell_date :: "world \<Rightarrow> world" where
  "tell_date w0 =
     (let w = called Call_tell_date w0
      in speak (''Today is '' @ get_date w) w)"

definition tell_joke :: "world \<Rightarrow> world" where
  "tell_joke w0 =
     (let w = called Call_tell_joke w0
      in case joke_src w of
           Some joke \<Rightarrow> speak joke w
         | None \<Rightarrow> log ''pyjokes exception'' (speak ''Sorry, I could not fetch a joke.'' w))"

definition wishme :: "world \<Rightarrow> world" where
  "wishme w0 =
     (let hour = clock_hour w0;
          w = (if 6 \<le> hour \<and> hour < 12 then speak ''Good morning.'' w0
               else if 12 \<le> hour \<and> hour < 18 then speak ''Good afternoon.'' w0
               else if 18 \<le> hour \<and> hour < 24 then speak ''Good evening.'' w0
               else speak ''Good night.'' w0);
          w = speak ''Welcome back. Alpha is at your service.'' w;
          w = tell_time w
      in tell_date w)"

definition cpu_status :: "world \<Rightarrow> world" where
  "cpu_status w0 =
     (let w = called Call_cpu_status w0
      in case cpu_src w of
           Some (usage, battery) \<Rightarrow>
             (let w = speak (''CPU usage is at '' @ usage @ '' percent.'') w
              in case battery of
                   Some percent \<Rightarrow> speak (''Battery is at '' @ percent @ '' percent.'') w
                 | None \<Rightarrow> speak ''Battery information is not available on this system.'' w)
         | None \<Rightarrow>
             speak ''Unable to retrieve CPU or battery status.''
               (log ''Failed to get CPU/battery status'' w))"

text \<open>\<^verbatim>\<open>not x\<close> for \<^verbatim>\<open>x = os.getenv(...)\<close>: the variable is unset or empty.\<close>

definition unset :: "string option \<Rightarrow> bool" where
  "unset v = (case v of None \<Rightarrow> True | Some s \<Rightarrow> s = [])"

definition send_email :: "string \<Rightarrow> string \<Rightarrow> string \<Rightarrow> world \<Rightarrow> bool \<times> world" where
  "send_email to_address subject body w0 =
     (let w = called (Call_send_email to_address subject body) w0;
          email_user = environ w ''EMAIL_USER'';
          email_pass = environ w ''EMAIL_PASS''
      in if unset email_user \<or> unset email_pass then
           (False,
            log ''Missing EMAIL_USER or EMAIL_PASS environment variables.''
              (speak (''Email credentials are not configured. ''
                      @ ''Please set EMAIL_USER and EMAIL_PASS environment variables.'') w))
         else
           (let user = (case email_user of Some u \<Rightarrow> u | None \<Rightarrow> []);
                message = ''From: '' @ user @ [CHR 0x0A] @ ''To: '' @ to_address @ [CHR 0x0A]
                          @ ''Subject: '' @ subject @ [CHR 0x0A, CHR 0x0A] @ body
            in if smtp_fault w then
                 (False,
                  speak ''Failed to send the email. Check the log for details.''
                    (log ''Failed to send email'' w))
               else
                 (True,
                  speak ''Email sent successfully.''
                    (w\<lparr>trace := trace w @ [Mailed user to_address message]\<rparr>))))"

definition take_screenshot :: "world \<Rightarrow> string option \<times> world" where
  "take_screenshot w0 =
     (let w = called Call_take_screenshot w0
      in case shot_src w of
           Some filename \<Rightarrow> (Some filename, speak (''Screenshot saved to '' @ filename) w)
         | None \<Rightarrow> (None, speak ''Unable to take screenshot.'' (log ''Screenshot failed'' w)))"

definition search_in_chrome :: "string \<Rightarrow> world \<Rightarrow> world" where
  "search_in_chrome query w0 =
     (let w = called (Call_search_in_chrome query) w0
      in if query = [] then speak ''No search query provided.'' w
         else
           (let w = speak (''Searching for '' @ query) w
            in if browser_fault w then
                 speak ''Unable to open the web browser.'' (log ''Failed to open web browser'' w)
               else w\<lparr>trace := trace w @ [Opened (''https://www.google.com/search?q='' @ query)]\<rparr>))"

definition wiki_lookup :: "string \<Rightarrow> nat \<Rightarrow> world \<Rightarrow> world" where
  "wiki_lookup term sentences w0 =
     (let w = called (Call_wiki_lookup term sentences) w0
      in if term = [] then speak ''No search term provided for Wikipedia.'' w
         else
           (let w = speak (''Searching Wikipedia for '' @ term) w
            in case wiki_src w term sentences of
                 Summary summary \<Rightarrow> speak summary w
               | DisambiguationError \<Rightarrow>
                   speak ''The term is ambiguous. Please be more specific.''
                     (log ''Wikipedia disambiguation'' w)
               | PageError \<Rightarrow> speak ''No Wikipedia page found for that term.'' w
               | WikiException \<Rightarrow>
                   speak ''An error occurred while searching Wikipedia.''
                     (log ''Wikipedia lookup failed'' w)))"

definition play_song :: "string \<Rightarrow> world \<Rightarrow> world" where
  "play_song song_name w0 =
     (let w = called (Call_play_song song_name) w0
      in if song_name = [] then speak ''No song specified.'' w
         else
           (let w = speak (''Playing '' @ song_name @ '' on YouTube.'') w
            in if youtube_fault w then
                 speak ''Unable to play the song.'' (log ''Failed to play song'' w)
               else w\<lparr>trace := trace w @ [Played song_name]\<rparr>))"

definition remember_to_file :: "string \<Rightarrow> string \<Rightarrow> world \<Rightarrow> world" where
  "remember_to_file note filename w0 =
     (let w = called (Call_remember_to_file note filename) w0
      in if fs_fault w then
           speak ''Unable to save the note.'' (log ''Failed to write remember file'' w)
         else speak ''I will remember that.'' (w\<lparr>files := (files w)(filename \<mapsto> note)\<rparr>))"

definition read_memory :: "string \<Rightarrow> world \<Rightarrow> world" where
  "read_memory filename w0 =
     (let w = called (Call_read_memory filename) w0
      in if fs_fault w then
           speak ''Unable to read the memory file.'' (log ''Failed to read memory file'' w)
         else
           (case files w filename of
              None \<Rightarrow> speak ''I have nothing saved yet.'' w
            | Some text \<Rightarrow>
                (let content = str_strip text
                 in if content \<noteq> [] then
                      speak content (speak ''You asked me to remember the following:'' w)
                    else speak ''The memory file is empty.'' w)))"

subsection \<open>Command parsing\<close>

text \<open>
  The slot values that \<^verbatim>\<open>parse_and_execute\<close> cuts out of the utterance: the
  trigger words are replaced by the empty string and the rest is stripped.
\<close>

text \<open>\<^verbatim>\<open>query.replace("wikipedia", "").strip()\<close>\<close>

definition term_of :: "string \<Rightarrow> string" where
  "term_of query = str_strip (str_replace query ''wikipedia'' [])"

text \<open>
  \<^verbatim>\<open>query.replace("search in chrome", "").replace("search", "").replace("google", "").strip()\<close>
\<close>

definition to_search_of :: "string \<Rightarrow> string" where
  "to_search_of query =
     str_strip
       (str_replace (str_replace (str_replace query ''search in chrome'' []) ''search'' [])
          ''google'' [])"

text \<open>\<^verbatim>\<open>query.replace("play", "").replace("play song", "").strip()\<close>\<close>

definition song_of :: "string \<Rightarrow> string" where
  "song_of query = str_strip (str_replace (str_replace query ''play'' []) ''play song'' [])"

text \<open>
  \<^verbatim>\<open>parse_and_execute(query)\<close>: the chain of \<^verbatim>\<open>if\<close> statements of the source, in
  the source's order; every branch returns. The Boolean is True to continue the main loop
  and False to leave it.
\<close>

definition parse_and_execute :: "string \<Rightarrow> world \<Rightarrow> bool \<times> world" where
  "parse_and_execute query w =
     (if query = [] then (True, w)
      else if list_ex (\<lambda>x. str_contains x query) [''exit'', ''quit'', ''bye'', ''goodbye'']
        then (False, speak ''Goodbye. Have a nice day.'' w)
      else if str_contains ''time'' query then (True, tell_time w)
      else if str_contains ''date'' query then (True, tell_date w)
      else if str_contains ''your name'' query \<or> str_contains ''what is your name'' query
        then (True, speak ''My name is Alpha.'' w)
      else if str_contains ''how can you help'' query
              \<or> str_contains ''how can you help me'' query
        then (True,
              speak (''I can tell time, take screenshots, send email, search the web, ''
                     @ ''play songs and more.'') w)
      else if str_contains ''wikipedia'' query then
        (let term = term_of query
         in if term = [] then
              (case take_command (speak ''What would you like me to search on Wikipedia?'' w) of
                 (term, w) \<Rightarrow> (True, wiki_lookup term 2 w))
            else (True, wiki_lookup term 2 w))
      else if str_contains ''search'' query \<or> str_contains ''search in chrome'' query
              \<or> str_contains ''google'' query then
        (let to_search = to_search_of query
         in if to_search = [] then
              (case take_command (speak ''What should I search for?'' w) of
                 (to_search, w) \<Rightarrow> (True, search_in_chrome to_search w))
            else (True, search_in_chrome to_search w))
      else if str_contains ''send email'' query \<or> str_contains ''email'' query then
        (case take_command (speak ''What should be the subject?'' w) of
           (subject, w) \<Rightarrow>
             (case take_command (speak ''What should I say in the email?'' w) of
                (body, w) \<Rightarrow>
                  if str_contains ''@'' subject \<and> str_contains ''.'' subject
                     \<and> \<not> str_contains '' '' subject
                  then (True, snd (send_email subject ''No subject'' body w))
                  else
                    (case py_input ''Recipient email: ''
                            (speak ''Who should I send it to? Please type the email address.'' w)
                     of (line, w) \<Rightarrow> (True, snd (send_email (str_strip line) subject body w)))))
      else if str_contains ''screenshot'' query \<or> str_contains ''screen shot'' query
        then (True, snd (take_screenshot w))
      else if str_contains ''cpu'' query \<or> str_contains ''battery'' query
        then (True, cpu_status w)
      else if str_contains ''remember that'' query \<or> str_contains ''remember'' query then
        (case take_command (speak ''What should I remember?'' w) of
           (note, w) \<Rightarrow> (True, remember_to_file note ''data.txt'' w))
      else if str_contains ''do you know anything'' query
              \<or> str_contains ''what do you remember'' query
              \<or> str_contains ''what did i tell you'' query
        then (True, read_memory ''data.txt'' w)
      else if str_contains ''play'' query \<or> str_contains ''play song'' query then
        (let song = song_of query
         in if song = [] then
              (case take_command (speak ''Which song should I play?'' w) of
                 (song, w) \<Rightarrow> (True, play_song song w))
            else (True, play_song song w))
      else if str_contains ''joke'' query then (True, tell_joke w)
      else
        (True,
         search_in_chrome query
           (speak ''I did not understand exactly. I will search the web for you.'' w)))"

subsection \<open>The session loop\<close>

text \<open>
  The \<^verbatim>\<open>while keep_running\<close> loop of \<^verbatim>\<open>main\<close>. It runs as long as the user keeps
  giving commands other than an exit phrase, so it need not return: the result is
  \<open>None\<close> when it does not.
\<close>

partial_function (option) session_loop :: "world \<Rightarrow> world option" where
  "session_loop w =
     (case take_command w of
        (query, w1) \<Rightarrow>
          (case parse_and_execute query w1 of
             (keep_running, w2) \<Rightarrow> if keep_running then session_loop w2 else Some w2))"

definition main :: "world \<Rightarrow> world option" where
  "main w = session_loop (wishme (speak ''Starting Alpha Assistant.'' w))"

subsection \<open>Intent selection and execution as two steps\<close>

text \<open>
  The intents are the branches of \<^verbatim>\<open>parse_and_execute\<close>, named after the comments of
  the source.
\<close>

datatype intent =
    Exit | TellTime | TellDate | Identify | Help | WikiLookup | WebSearch | SendEmail
  | Screenshot | SystemStatus | Remember | RecallMemory | PlaySong | Joke | FallbackSearch

text \<open>The conditions of the chain alone, in the same order: which branch a query takes.\<close>

definition match_intent :: "string \<Rightarrow> intent" where
  "match_intent query =
     (if list_ex (\<lambda>x. str_contains x query) [''exit'', ''quit'', ''bye'', ''goodbye'']
        then Exit
      else if str_contains ''time'' query then TellTime
      else if str_contains ''date'' query then TellDate
      else if str_contains ''your name'' query \<or> str_contains ''what is your name'' query
        then Identify
      else if str_contains ''how can you help'' query
              \<or> str_contains ''how can you help me'' query
        then Help
      else if str_contains ''wikipedia'' query then WikiLookup
      else if str_contains ''search'' query \<or> str_contains ''search in chrome'' query
              \<or> str_contains ''google'' query
        then WebSearch
      else if str_contains ''send email'' query \<or> str_contains ''email'' query then SendEmail
      else if str_contains ''screenshot'' query \<or> str_contains ''screen shot'' query
        then Screenshot
      else if str_contains ''cpu'' query \<or> str_contains ''battery'' query then SystemStatus
      else if str_contains ''remember that'' query \<or> str_contains ''remember'' query
        then Remember
      else if str_contains ''do you know anything'' query
              \<or> str_contains ''what do you remember'' query
              \<or> str_contains ''what did i tell you'' query
        then RecallMemory
      else if str_contains ''play'' query \<or> str_contains ''play song'' query then PlaySong
      else if str_contains ''joke'' query then Joke
      else FallbackSearch)"

text \<open>The bodies of the branches alone: what the program does once the branch is chosen.\<close>

definition run_intent :: "intent \<Rightarrow> string \<Rightarrow> world \<Rightarrow> bool \<times> world" where
  "run_intent i query w =
     (case i of
        Exit \<Rightarrow> (False, speak ''Goodbye. Have a nice day.'' w)
      | TellTime \<Rightarrow> (True, tell_time w)
      | TellDate \<Rightarrow> (True, tell_date w)
      | Identify \<Rightarrow> (True, speak ''My name is Alpha.'' w)
      | Help \<Rightarrow>
          (True,
           speak (''I can tell time, take screenshots, send email, search the web, ''
                  @ ''play songs and more.'') w)
      | WikiLookup \<Rightarrow>
          (let term = term_of query
           in if term = [] then
                (case take_command (speak ''What would you like me to search on Wikipedia?'' w) of
                   (term, w) \<Rightarrow> (True, wiki_lookup term 2 w))
              else (True, wiki_lookup term 2 w))
      | WebSearch \<Rightarrow>
          (let to_search = to_search_of query
           in if to_search = [] then
                (case take_command (speak ''What should I search for?'' w) of
                   (to_search, w) \<Rightarrow> (True, search_in_chrome to_search w))
              else (True, search_in_chrome to_search w))
      | SendEmail \<Rightarrow>
          (case take_command (speak ''What should be the subject?'' w) of
             (subject, w) \<Rightarrow>
               (case take_command (speak ''What should I say in the email?'' w) of
                  (body, w) \<Rightarrow>
                    if str_contains ''@'' subject \<and> str_contains ''.'' subject
                       \<and> \<not> str_contains '' '' subject
                    then (True, snd (send_email subject ''No subject'' body w))
                    else
                      (case py_input ''Recipient email: ''
                              (speak ''Who should I send it to? Please type the email address.'' w)
                       of (line, w) \<Rightarrow>
                            (True, snd (send_email (str_strip line) subject body w)))))
      | Screenshot \<Rightarrow> (True, snd (take_screenshot w))
      | SystemStatus \<Rightarrow> (True, cpu_status w)
      | Remember \<Rightarrow>
          (case take_command (speak ''What should I remember?'' w) of
             (note, w) \<Rightarrow> (True, remember_to_file note ''data.txt'' w))
      | RecallMemory \<Rightarrow> (True, read_memory ''data.txt'' w)
      | PlaySong \<Rightarrow>
          (let song = song_of query
           in if song = [] then
                (case take_command (speak ''Which song should I play?'' w) of
                   (song, w) \<Rightarrow> (True, play_song song w))
              else (True, play_song song w))
      | Joke \<Rightarrow> (True, tell_joke w)
      | FallbackSearch \<Rightarrow>
          (True,
           search_in_chrome query
             (speak ''I did not understand exactly. I will search the web for you.'' w)))"

text \<open>The trigger words of the branches that come before the Remember branch.\<close>

definition earlier_than_remember :: "string list" where
  "earlier_than_remember =
     [''exit'', ''quit'', ''bye'', ''goodbye'', ''time'', ''date'', ''your name'',
      ''what is your name'', ''how can you help'', ''how can you help me'', ''wikipedia'',
      ''search'', ''search in chrome'', ''google'', ''send email'', ''email'', ''screenshot'',
      ''screen shot'', ''cpu'', ''battery'']"

text \<open>The trigger words of all branches.\<close>

definition trigger_words :: "string list" where
  "trigger_words =
     earlier_than_remember
     @ [''remember that'', ''remember'', ''do you know anything'', ''what do you remember'',
        ''what did i tell you'', ''play'', ''play song'', ''joke'']"

subsection \<open>Example worlds and trigger predicates\<close>

text \<open>
  A world in which nothing has happened yet: no environment variables, no files, no
  faults, given what the microphone will hear and what the user will type.
\<close>

definition world0 :: "listening stream \<Rightarrow> string stream \<Rightarrow> world" where
  "world0 ls ts =
     \<lparr>listens = ls, typed = ts, environ = Map.empty, files = Map.empty,
      fs_fault = False, smtp_fault = False, browser_fault = False, youtube_fault = False,
      clock_hour = 9, clock_time = ''09:00:00 AM'', clock_date = ''Monday, 01 January 2024'',
      joke_src = None, wiki_src = (\<lambda>_ _. PageError), cpu_src = None, shot_src = None,
      trace = [], calls = []\<rparr>"

text \<open>No trigger word of any branch occurs in the query.\<close>

definition no_trigger :: "string \<Rightarrow> bool" where
  "no_trigger query = (\<not> list_ex (\<lambda>x. str_contains x query) trigger_words)"

text \<open>No trigger word of a branch before the Remember branch occurs in the query.\<close>

definition no_earlier_trigger :: "string \<Rightarrow> bool" where
  "no_earlier_trigger query = (\<not> list_ex (\<lambda>x. str_contains x query) earlier_than_remember)"

section \<open>Properties\<close>

lemmas io_defs = Let_def speak_def log_def called_def py_input_def typed_command_def
  take_command_def
lemmas handler_defs = get_time_def get_date_def tell_time_def tell_date_def tell_joke_def
  cpu_status_def unset_def send_email_def take_screenshot_def search_in_chrome_def
  wiki_lookup_def play_song_def remember_to_file_def read_memory_def
lemmas str_defs = str_strip_def is_space_def str_lower_def lower_char_def term_of_def
  to_search_of_def song_of_def

subsection \<open>Strings\<close>

lemma starts_with_iff: "starts_with s p \<longleftrightarrow> (\<exists>b. s = p @ b)"
  by (induction s p rule: starts_with.induct) auto

lemma str_contains_iff: "str_contains sub s \<longleftrightarrow> (\<exists>a b. s = a @ sub @ b)"
proof (induction s)
  case Nil
  then show ?case by auto
next
  case (Cons c cs)
  show ?case
  proof
    assume "str_contains sub (c # cs)"
    then consider "starts_with (c # cs) sub" | "str_contains sub cs" by auto
    then show "\<exists>a b. c # cs = a @ sub @ b"
    proof cases
      case 1
      then obtain b where "c # cs = sub @ b" by (auto simp: starts_with_iff)
      then have "c # cs = [] @ sub @ b" by simp
      then show ?thesis by blast
    next
      case 2
      then obtain a b where "cs = a @ sub @ b" using Cons.IH by auto
      then have "c # cs = (c # a) @ sub @ b" by simp
      then show ?thesis by blast
    qed
  next
    assume "\<exists>a b. c # cs = a @ sub @ b"
    then obtain a b where ab: "c # cs = a @ sub @ b" by blast
    show "str_contains sub (c # cs)"
    proof (cases a)
      case Nil
      with ab have "starts_with (c # cs) sub" by (auto simp: starts_with_iff)
      then show ?thesis by simp
    next
      case (Cons x a')
      with ab have "cs = a' @ sub @ b" by simp
      then have "str_contains sub cs" using Cons.IH by blast
      then show ?thesis by simp
    qed
  qed
qed

lemma str_contains_append:
  "str_contains (x @ y @ z) s \<Longrightarrow> str_contains y s"
proof -
  assume "str_contains (x @ y @ z) s"
  then obtain a b where "s = a @ (x @ y @ z) @ b" by (auto simp: str_contains_iff)
  then have "s = (a @ x) @ y @ (z @ b)" by simp
  then show ?thesis unfolding str_contains_iff by blast
qed

lemma str_contains_nonempty: "str_contains sub s \<Longrightarrow> sub \<noteq> [] \<Longrightarrow> s \<noteq> []"
  by (cases s) auto

lemma str_replace_absent: "\<not> str_contains old s \<Longrightarrow> str_replace s old new = s"
  by (induction s) auto

lemma dropWhile_rev_dropWhile:
  "dropWhile P (rev (dropWhile P (rev (dropWhile P s)))) = rev (dropWhile P (rev (dropWhile P s)))"
proof -
  define t where "t = dropWhile P s"
  define u where "u = dropWhile P (rev t)"
  have t: "t = rev u @ rev (takeWhile P (rev t))"
    unfolding u_def by (metis rev_append rev_rev_ident takeWhile_dropWhile_id)
  show ?thesis
  proof (cases "rev u = []")
    case True
    then show ?thesis unfolding t_def[symmetric] u_def[symmetric] by simp
  next
    case False
    then have "t \<noteq> []" using t by auto
    then have "\<not> P (hd t)" unfolding t_def by (simp add: hd_dropWhile)
    moreover have "hd t = hd (rev u)" using t False by (metis hd_append2)
    ultimately have "\<not> P (hd (rev u))" by simp
    with False have "dropWhile P (rev u) = rev u" by (cases "rev u") auto
    then show ?thesis unfolding t_def[symmetric] u_def[symmetric] .
  qed
qed

lemma str_strip_idem: "str_strip (str_strip s) = str_strip s"
  by (simp add: str_strip_def dropWhile_rev_dropWhile)

lemma lower_char_idem: "lower_char (lower_char c) = lower_char c"
  by (auto simp: lower_char_def split: option.splits if_splits)

lemma str_lower_idem: "str_lower (str_lower s) = str_lower s"
  by (simp add: str_lower_def lower_char_idem)

lemma is_space_lower_char: "is_space (lower_char c) = is_space c"
  by (auto simp: lower_char_def is_space_def split: option.splits if_splits)

lemma dropWhile_space_lower:
  "dropWhile is_space (map lower_char s) = map lower_char (dropWhile is_space s)"
  by (induction s) (auto simp: is_space_lower_char)

lemma str_strip_lower: "str_strip (str_lower s) = str_lower (str_strip s)"
  by (simp add: str_strip_def str_lower_def dropWhile_space_lower rev_map)

subsection \<open>Input\<close>

lemma calls_take_command: "calls (snd (take_command w)) = calls w"
  by (simp add: io_defs split: listening.splits recognition.splits)


lemma take_command_lower: "str_lower (fst (take_command w)) = fst (take_command w)"
  by (simp add: io_defs str_lower_idem split: listening.splits recognition.splits)

lemma take_command_typed:
  assumes "\<And>t. shd (listens w) \<noteq> Audio (Transcript t)"
  shows "fst (take_command w) = str_lower (str_strip (shd (typed w)))"
    and "str_strip (fst (take_command w)) = fst (take_command w)"
  using assms
  by (auto simp: io_defs str_strip_lower str_strip_idem split: listening.splits recognition.splits)

lemma take_command_voice:
  "shd (listens w) = Audio (Transcript t) \<Longrightarrow> fst (take_command w) = str_lower t"
  by (simp add: io_defs)

subsection \<open>Dispatch\<close>

lemma parse_and_execute_decomp:
  "parse_and_execute q w = (if q = [] then (True, w) else run_intent (match_intent q) q w)"
  unfolding parse_and_execute_def match_intent_def run_intent_def
  by simp

lemma match_intent_empty: "match_intent [] = FallbackSearch"
  by (simp add: match_intent_def)

lemma match_fallback_iff: "match_intent q = FallbackSearch \<longleftrightarrow> no_trigger q"
  unfolding match_intent_def no_trigger_def trigger_words_def earlier_than_remember_def
  by simp

lemma match_intent_no_earlier:
  "no_earlier_trigger q \<Longrightarrow>
   match_intent q =
     (if str_contains ''remember that'' q \<or> str_contains ''remember'' q then Remember
      else if str_contains ''do you know anything'' q
              \<or> str_contains ''what do you remember'' q
              \<or> str_contains ''what did i tell you'' q
        then RecallMemory
      else if str_contains ''play'' q \<or> str_contains ''play song'' q then PlaySong
      else if str_contains ''joke'' q then Joke
      else FallbackSearch)"
  by (simp add: match_intent_def no_earlier_trigger_def earlier_than_remember_def)

lemma match_intent_later:
  "match_intent q = Remember \<or> match_intent q = RecallMemory \<Longrightarrow> no_earlier_trigger q"
  by (simp add: match_intent_def no_earlier_trigger_def earlier_than_remember_def
      split: if_splits)

subsection \<open>What the handlers record\<close>

lemma calls_speak: "calls (speak t w) = calls w"
  by (simp add: speak_def)


lemma typed_speak: "typed (speak t w) = typed w"
  by (simp add: speak_def)




lemma send_email_calls:
  "calls (snd (send_email a s b w)) = calls w @ [Call_send_email a s b]"
  "typed (snd (send_email a s b w)) = typed w"
  by (simp_all add: send_email_def io_defs)

section \<open>The claims\<close>

subsection \<open>C1: exit phrases\<close>

text \<open>
  C1. Whenever the utterance contains "exit", "quit", "bye" or "goodbye" as a substring,
  whatever else it contains, the Exit branch is the one taken: \<^verbatim>\<open>parse_and_execute\<close>
  returns False after saying the farewell and nothing else, no capability handler is
  entered, and a session loop whose input resolution produced that utterance returns at
  that turn.
\<close>

theorem C1_exit_terminates:
  assumes "str_contains ''exit'' q \<or> str_contains ''quit'' q \<or> str_contains ''bye'' q
           \<or> str_contains ''goodbye'' q"
  shows "match_intent q = Exit
       \<and> parse_and_execute q w = (False, speak ''Goodbye. Have a nice day.'' w)
       \<and> calls (snd (parse_and_execute q w)) = calls w
       \<and> trace (snd (parse_and_execute q w)) = trace w @ [Said ''Goodbye. Have a nice day.'']
       \<and> (take_command w0 = (q, w)
             \<longrightarrow> session_loop w0 = Some (speak ''Goodbye. Have a nice day.'' w))"
proof -
  have ne: "q \<noteq> []"
    using assms by (auto dest: str_contains_nonempty)
  have m: "match_intent q = Exit"
    using assms by (auto simp: match_intent_def)
  have p: "parse_and_execute q w = (False, speak ''Goodbye. Have a nice day.'' w)"
    using ne m by (simp add: parse_and_execute_decomp run_intent_def)
  have l: "take_command w0 = (q, w)
             \<Longrightarrow> session_loop w0 = Some (speak ''Goodbye. Have a nice day.'' w)"
    by (subst session_loop.simps) (simp add: p)
  show ?thesis
    using m p l by (simp add: speak_def)
qed

text \<open>
  An utterance with both an exit phrase and the trigger of another branch ("time"), heard
  on the voice path.
\<close>

theorem C1_exit_terminates_witness:
  "str_contains ''goodbye'' ''goodbye, and what time is it''
   \<and> fst (take_command (world0 (Audio (Transcript ''Goodbye, and what time is it'') ## sconst WaitTimeoutError) (sconst [])))
       = ''goodbye, and what time is it''
   \<and> match_intent ''goodbye, and what time is it'' = Exit
   \<and> fst (parse_and_execute ''goodbye, and what time is it''
             (snd (take_command (world0 (Audio (Transcript ''Goodbye, and what time is it'') ## sconst WaitTimeoutError) (sconst []))))) = False
   \<and> session_loop (world0 (Audio (Transcript ''Goodbye, and what time is it'') ## sconst WaitTimeoutError) (sconst []))
       = Some (speak ''Goodbye. Have a nice day.''
                (snd (take_command (world0 (Audio (Transcript ''Goodbye, and what time is it'') ## sconst WaitTimeoutError) (sconst [])))))"
proof -
  let ?w0 = "world0 (Audio (Transcript ''Goodbye, and what time is it'') ## sconst WaitTimeoutError) (sconst [])"
  have q: "fst (take_command ?w0) = ''goodbye, and what time is it''"
    by (simp add: world0_def io_defs str_defs)
  have h: "str_contains ''goodbye'' ''goodbye, and what time is it''" by simp
  have t: "take_command ?w0 = (''goodbye, and what time is it'', snd (take_command ?w0))"
    using q by (metis prod.collapse)
  show ?thesis
    using q h t C1_exit_terminates [of "''goodbye, and what time is it''" "snd (take_command ?w0)" ?w0]
    by simp
qed

subsection \<open>C2: clarification of an empty slot\<close>




subsection \<open>C3: the fallback search\<close>

text \<open>
  C3, as stated, fails at the empty utterance: it contains no trigger word, yet
  \<^verbatim>\<open>parse_and_execute\<close> returns before the chain of conditions, so no branch is
  taken and the web search is not called.
\<close>

theorem C3_counterexample:
  "no_trigger []
   \<and> parse_and_execute [] (world0 (sconst WaitTimeoutError) (sconst []))
       = (True, world0 (sconst WaitTimeoutError) (sconst []))
   \<and> calls (snd (parse_and_execute [] (world0 (sconst WaitTimeoutError) (sconst [])))) = []"
  by (simp add: no_trigger_def trigger_words_def earlier_than_remember_def
      parse_and_execute_def world0_def)

text \<open>
  C3, amended. The branch taken is a function of the utterance: every utterance has exactly
  one. An utterance with no trigger word has the FallbackSearch branch. For every
  non-empty utterance \<^verbatim>\<open>parse_and_execute\<close> runs the body of that one branch, and
  when the non-empty utterance has no trigger word it says that it did not understand and
  calls \<^verbatim>\<open>search_in_chrome\<close> once, with the whole utterance unchanged.
\<close>

theorem C3_fallback_search:
  "(\<exists>!i. match_intent q = i)
   \<and> (no_trigger q \<longrightarrow> match_intent q = FallbackSearch)
   \<and> (q \<noteq> [] \<longrightarrow> parse_and_execute q w = run_intent (match_intent q) q w)
   \<and> (q \<noteq> [] \<and> no_trigger q \<longrightarrow>
        parse_and_execute q w
          = (True,
             search_in_chrome q
               (speak ''I did not understand exactly. I will search the web for you.'' w))
        \<and> calls (snd (parse_and_execute q w)) = calls w @ [Call_search_in_chrome q])"
proof -
  have a: "no_trigger q \<Longrightarrow> match_intent q = FallbackSearch"
    by (simp add: match_fallback_iff)
  have b: "q \<noteq> [] \<Longrightarrow> parse_and_execute q w = run_intent (match_intent q) q w"
    by (simp add: parse_and_execute_decomp)
  have c: "q \<noteq> [] \<Longrightarrow> no_trigger q \<Longrightarrow>
        parse_and_execute q w
          = (True,
             search_in_chrome q
               (speak ''I did not understand exactly. I will search the web for you.'' w))"
    using a b by (simp add: run_intent_def)
  have d: "calls (search_in_chrome q
               (speak ''I did not understand exactly. I will search the web for you.'' w))
           = calls w @ [Call_search_in_chrome q]"
    by (simp add: search_in_chrome_def io_defs)
  show ?thesis
    using a b c d by simp
qed

theorem C3_fallback_search_witness:
  "no_trigger ''weather in paris'' \<and> ''weather in paris'' \<noteq> []
   \<and> match_intent ''weather in paris'' = FallbackSearch
   \<and> calls (snd (parse_and_execute ''weather in paris''
               (world0 (sconst WaitTimeoutError) (sconst []))))
       = [Call_search_in_chrome ''weather in paris'']
   \<and> trace (snd (parse_and_execute ''weather in paris''
               (world0 (sconst WaitTimeoutError) (sconst []))))
       = [Said ''I did not understand exactly. I will search the web for you.'',
          Said ''Searching for weather in paris'',
          Opened ''https://www.google.com/search?q=weather in paris'']"
proof -
  let ?w = "world0 (sconst WaitTimeoutError) (sconst [])"
  have h: "no_trigger ''weather in paris''"
    by (simp add: no_trigger_def trigger_words_def earlier_than_remember_def)
  have n: "''weather in paris'' \<noteq> []" by simp
  show ?thesis
    using h n C3_fallback_search [of "''weather in paris''" ?w]
    by (simp add: world0_def run_intent_def search_in_chrome_def io_defs)
qed

subsection \<open>C4: normalisation of the utterance\<close>

text \<open>
  C4. \<^verbatim>\<open>take_command\<close> returns a string on every path, and that string is lower-cased
  on every path (\<open>take_command_lower\<close>); on the typed paths it is also stripped
  (\<open>take_command_typed\<close>). On the voice path the transcript is returned lower-cased
  but not stripped: the transcript " Play Music " comes back as " play music ", while the
  same text typed comes back as "play music".
\<close>

theorem C4_voice_path_not_trimmed:
  "fst (take_command (world0 (Audio (Transcript '' Play Music '') ## sconst WaitTimeoutError)
                        (sconst [])))
     = '' play music ''
   \<and> str_strip '' play music '' = ''play music''
   \<and> fst (take_command (world0 (sconst WaitTimeoutError) ('' Play Music '' ## sconst [])))
     = ''play music''"
  by (simp add: world0_def io_defs str_defs)

subsection \<open>C5: an address given as the subject\<close>

text \<open>
  C5, as stated, fails: the test is for the space character, not for white space. A
  subject with "@", "." and a tab in it has white space, yet it is taken as the recipient
  and the typed line that would have answered the recipient prompt is left unread.
\<close>

theorem C5_counterexample:
  "list_ex is_space (''a@b.c'' @ [CHR 0x09] @ ''x'')
   \<and> calls (snd (parse_and_execute ''send email''
        (world0 (sconst WaitTimeoutError)
           ((''a@b.c'' @ [CHR 0x09] @ ''x'') ## ''hello'' ## ''bob@example.com'' ## sconst []))))
       = [Call_send_email (''a@b.c'' @ [CHR 0x09] @ ''x'') ''No subject'' ''hello'']
   \<and> typed (snd (parse_and_execute ''send email''
        (world0 (sconst WaitTimeoutError)
           ((''a@b.c'' @ [CHR 0x09] @ ''x'') ## ''hello'' ## ''bob@example.com'' ## sconst []))))
       = ''bob@example.com'' ## sconst []"
  by (simp add: parse_and_execute_def world0_def io_defs send_email_def unset_def str_defs)

text \<open>
  C5, amended. In the SendEmail branch the subject and the body are each taken from one
  round of input resolution. If the subject contains "@" and "." and no space character
  (other white space is not tested), \<^verbatim>\<open>send_email\<close> is entered with the subject as
  recipient, "No subject" as subject and the body, and no recipient is asked for.
  Otherwise the recipient is asked for and read from the keyboard, stripped, and
  \<^verbatim>\<open>send_email\<close> is entered with that recipient, the subject and the body.
\<close>

theorem C5_subject_as_recipient:
  assumes "match_intent q = SendEmail"
    and "take_command (speak ''What should be the subject?'' w) = (subject, w1)"
    and "take_command (speak ''What should I say in the email?'' w1) = (body, w2)"
  shows "(str_contains ''@'' subject \<and> str_contains ''.'' subject \<and> \<not> str_contains '' '' subject
          \<longrightarrow> parse_and_execute q w = (True, snd (send_email subject ''No subject'' body w2))
              \<and> calls (snd (parse_and_execute q w))
                  = calls w @ [Call_send_email subject ''No subject'' body]
              \<and> typed (snd (parse_and_execute q w)) = typed w2)
       \<and> (\<not> (str_contains ''@'' subject \<and> str_contains ''.'' subject
               \<and> \<not> str_contains '' '' subject)
          \<longrightarrow> parse_and_execute q w
                = (True,
                   snd (send_email (str_strip (shd (typed w2))) subject body
                          (snd (py_input ''Recipient email: ''
                                  (speak ''Who should I send it to? Please type the email address.''
                                     w2)))))
              \<and> calls (snd (parse_and_execute q w))
                  = calls w @ [Call_send_email (str_strip (shd (typed w2))) subject body]
              \<and> typed (snd (parse_and_execute q w)) = stl (typed w2))"
proof -
  have ne: "q \<noteq> []"
    using assms(1) match_intent_empty by auto
  have c1: "calls w1 = calls w"
    using calls_take_command [of "speak ''What should be the subject?'' w"] assms(2)
    by (simp add: calls_speak)
  have c2: "calls w2 = calls w"
    using calls_take_command [of "speak ''What should I say in the email?'' w1"] assms(3) c1
    by (simp add: calls_speak)
  have p: "parse_and_execute q w =
      (if str_contains ''@'' subject \<and> str_contains ''.'' subject \<and> \<not> str_contains '' '' subject
       then (True, snd (send_email subject ''No subject'' body w2))
       else (True,
             snd (send_email (str_strip (shd (typed w2))) subject body
                    (snd (py_input ''Recipient email: ''
                            (speak ''Who should I send it to? Please type the email address.''
                               w2))))))"
    using ne assms
    by (simp add: parse_and_execute_decomp run_intent_def py_input_def typed_speak split: prod.splits)
  show ?thesis
    using p c2 by (simp add: send_email_calls py_input_def speak_def)
qed

text \<open>
  The subject "alice@example.com" becomes the recipient; the subject "lunch plans" does
  not, and the recipient is typed.
\<close>

theorem C5_subject_as_recipient_witness:
  "match_intent ''send email'' = SendEmail
   \<and> calls (snd (parse_and_execute ''send email''
        (world0 (sconst WaitTimeoutError)
           (''alice@example.com'' ## ''see you at noon'' ## ''bob@example.com'' ## sconst []))))
       = [Call_send_email ''alice@example.com'' ''No subject'' ''see you at noon'']
   \<and> calls (snd (parse_and_execute ''send email''
        (world0 (sconst WaitTimeoutError)
           (''lunch plans'' ## ''see you at noon'' ## '' bob@example.com '' ## sconst []))))
       = [Call_send_email ''bob@example.com'' ''lunch plans'' ''see you at noon'']"
proof -
  let ?wa = "world0 (sconst WaitTimeoutError)
           (''alice@example.com'' ## ''see you at noon'' ## ''bob@example.com'' ## sconst [])"
  let ?wb = "world0 (sconst WaitTimeoutError)
           (''lunch plans'' ## ''see you at noon'' ## '' bob@example.com '' ## sconst [])"
  let ?a1 = "take_command (speak ''What should be the subject?'' ?wa)"
  let ?a2 = "take_command (speak ''What should I say in the email?'' (snd ?a1))"
  let ?b1 = "take_command (speak ''What should be the subject?'' ?wb)"
  let ?b2 = "take_command (speak ''What should I say in the email?'' (snd ?b1))"
  have m: "match_intent ''send email'' = SendEmail" by (simp add: match_intent_def)
  have a1: "?a1 = (fst ?a1, snd ?a1)" by simp
  have a2: "?a2 = (fst ?a2, snd ?a2)" by simp
  have b1: "?b1 = (fst ?b1, snd ?b1)" by simp
  have b2: "?b2 = (fst ?b2, snd ?b2)" by simp
  have va: "fst ?a1 = ''alice@example.com'' \<and> fst ?a2 = ''see you at noon''"
    by (simp add: world0_def io_defs str_defs)
  have vb: "fst ?b1 = ''lunch plans'' \<and> fst ?b2 = ''see you at noon''
            \<and> str_strip (shd (typed (snd ?b2))) = ''bob@example.com''"
    by (simp add: world0_def io_defs str_defs)
  have c: "calls ?wa = [] \<and> calls ?wb = []" by (simp add: world0_def)
  show ?thesis
    using m va vb c
      C5_subject_as_recipient [OF m a1 a2]
      C5_subject_as_recipient [OF m b1 b2]
    by (simp add: send_email_calls calls_take_command calls_speak py_input_def)
qed

subsection \<open>C6: slot extraction applied twice\<close>

text \<open>
  C6, as stated, fails: replacing the trigger words is a single pass, and what is left can
  join up into a trigger word again. From "plplayay" one extraction leaves "play", and a
  second one leaves nothing; the same happens in the search and the Wikipedia extraction.
\<close>

theorem C6_counterexample:
  "song_of (song_of ''plplayay'') \<noteq> song_of ''plplayay''
   \<and> to_search_of (to_search_of ''seagooglerch cats'') \<noteq> to_search_of ''seagooglerch cats''
   \<and> term_of (term_of ''wikiwikipediapedia'') \<noteq> term_of ''wikiwikipediapedia''"
  by (simp add: str_defs)

text \<open>
  C6, amended. Whenever the value extracted once contains none of the trigger words of its
  intent, extracting again gives the same value. This holds for each of the three
  extractions: the Wikipedia term, the search query and the song name.
\<close>

theorem C6_extraction_idempotent_when_clean:
  "(\<not> str_contains ''wikipedia'' (term_of q) \<longrightarrow> term_of (term_of q) = term_of q)
   \<and> (\<not> str_contains ''search'' (to_search_of q) \<and> \<not> str_contains ''google'' (to_search_of q)
        \<longrightarrow> to_search_of (to_search_of q) = to_search_of q)
   \<and> (\<not> str_contains ''play'' (song_of q) \<longrightarrow> song_of (song_of q) = song_of q)"
proof -
  have chrome: "\<not> str_contains ''search'' s \<Longrightarrow> \<not> str_contains ''search in chrome'' s" for s
    using str_contains_append [of "[]" "''search''" "'' in chrome''" s] by auto
  have song: "\<not> str_contains ''play'' s \<Longrightarrow> \<not> str_contains ''play song'' s" for s
    using str_contains_append [of "[]" "''play''" "'' song''" s] by auto
  have a: "\<not> str_contains ''wikipedia'' (term_of q) \<Longrightarrow> term_of (term_of q) = term_of q"
  proof -
    assume h: "\<not> str_contains ''wikipedia'' (term_of q)"
    have "term_of (term_of q) = str_strip (term_of q)"
      unfolding term_of_def [of "term_of q"] using h by (simp add: str_replace_absent)
    then show ?thesis by (simp add: term_of_def str_strip_idem)
  qed
  have b: "\<not> str_contains ''search'' (to_search_of q) \<Longrightarrow> \<not> str_contains ''google'' (to_search_of q)
             \<Longrightarrow> to_search_of (to_search_of q) = to_search_of q"
  proof -
    assume h: "\<not> str_contains ''search'' (to_search_of q)" "\<not> str_contains ''google'' (to_search_of q)"
    have "to_search_of (to_search_of q) = str_strip (to_search_of q)"
      unfolding to_search_of_def [of "to_search_of q"] using h chrome
      by (simp add: str_replace_absent)
    then show ?thesis by (simp add: to_search_of_def str_strip_idem)
  qed
  have c: "\<not> str_contains ''play'' (song_of q) \<Longrightarrow> song_of (song_of q) = song_of q"
  proof -
    assume h: "\<not> str_contains ''play'' (song_of q)"
    have "song_of (song_of q) = str_strip (song_of q)"
      unfolding song_of_def [of "song_of q"] using h song
      by (simp add: str_replace_absent)
    then show ?thesis by (simp add: song_of_def str_strip_idem)
  qed
  show ?thesis using a b c by blast
qed

theorem C6_extraction_idempotent_when_clean_witness:
  "\<not> str_contains ''wikipedia'' (term_of ''wikipedia alan turing'')
   \<and> term_of (term_of ''wikipedia alan turing'') = term_of ''wikipedia alan turing''
   \<and> term_of ''wikipedia alan turing'' = ''alan turing''
   \<and> \<not> str_contains ''search'' (to_search_of ''search in chrome for cats'')
   \<and> \<not> str_contains ''google'' (to_search_of ''search in chrome for cats'')
   \<and> to_search_of (to_search_of ''search in chrome for cats'') = to_search_of ''search in chrome for cats''
   \<and> to_search_of ''search in chrome for cats'' = ''for cats''
   \<and> \<not> str_contains ''play'' (song_of ''play imagine'')
   \<and> song_of (song_of ''play imagine'') = song_of ''play imagine''
   \<and> song_of ''play imagine'' = ''imagine''"
proof -
  have t: "term_of ''wikipedia alan turing'' = ''alan turing''" by (simp add: str_defs)
  have s: "to_search_of ''search in chrome for cats'' = ''for cats''" by (simp add: str_defs)
  have p: "song_of ''play imagine'' = ''imagine''" by (simp add: str_defs)
  have ht: "\<not> str_contains ''wikipedia'' (term_of ''wikipedia alan turing'')"
    unfolding t by simp
  have hs: "\<not> str_contains ''search'' (to_search_of ''search in chrome for cats'')
            \<and> \<not> str_contains ''google'' (to_search_of ''search in chrome for cats'')"
    unfolding s by simp
  have hp: "\<not> str_contains ''play'' (song_of ''play imagine'')"
    unfolding p by simp
  show ?thesis
    using t s p ht hs hp
      C6_extraction_idempotent_when_clean [of "''wikipedia alan turing''"]
      C6_extraction_idempotent_when_clean [of "''search in chrome for cats''"]
      C6_extraction_idempotent_when_clean [of "''play imagine''"]
    by blast
qed

subsection \<open>C7: the empty utterance\<close>

text \<open>
  C7. On the empty utterance \<^verbatim>\<open>parse_and_execute\<close> returns True, so the session
  keeps running, and gives back the world exactly as it was: no handler has been entered
  and nothing has been said, logged or prompted.
\<close>

theorem C7_empty_utterance_noop: "parse_and_execute [] w = (True, w)"
  by (simp add: parse_and_execute_def)

subsection \<open>C8: missing e-mail credentials\<close>

text \<open>
  C8. If \<^verbatim>\<open>EMAIL_USER\<close> or \<^verbatim>\<open>EMAIL_PASS\<close> is unset or empty,
  \<^verbatim>\<open>send_email\<close> returns False, and all it does is tell the user that the
  credentials are not configured and log the error: no message is handed to SMTP and no
  SMTP failure is reported. The function returns a value in every case.
\<close>

theorem C8_missing_credentials:
  assumes "environ w ''EMAIL_USER'' = None \<or> environ w ''EMAIL_USER'' = Some []
           \<or> environ w ''EMAIL_PASS'' = None \<or> environ w ''EMAIL_PASS'' = Some []"
  shows "fst (send_email to_address subject body w) = False
       \<and> trace (snd (send_email to_address subject body w))
           = trace w
             @ [Said (''Email credentials are not configured. ''
                      @ ''Please set EMAIL_USER and EMAIL_PASS environment variables.''),
                Logged ''Missing EMAIL_USER or EMAIL_PASS environment variables.'']"
  using assms by (auto simp: send_email_def unset_def io_defs)

theorem C8_missing_credentials_witness:
  "environ (world0 (sconst WaitTimeoutError) (sconst [])) ''EMAIL_USER'' = None
   \<and> send_email ''alice@example.com'' ''hi'' ''hello'' (world0 (sconst WaitTimeoutError) (sconst []))
       = (False, (world0 (sconst WaitTimeoutError) (sconst []))
            \<lparr>trace := [Said (''Email credentials are not configured. ''
                      @ ''Please set EMAIL_USER and EMAIL_PASS environment variables.''),
                Logged ''Missing EMAIL_USER or EMAIL_PASS environment variables.''],
              calls := [Call_send_email ''alice@example.com'' ''hi'' ''hello'']\<rparr>)"
proof -
  have h: "environ (world0 (sconst WaitTimeoutError) (sconst [])) ''EMAIL_USER'' = None"
    by (simp add: world0_def)
  show ?thesis
    using h C8_missing_credentials [of "world0 (sconst WaitTimeoutError) (sconst [])"
        "''alice@example.com''" "''hi''" "''hello''"]
    by (simp add: world0_def send_email_def unset_def io_defs)
qed

subsection \<open>C9: "remember" and the recall branch\<close>

text \<open>
  C9, as stated, fails in its first half: an utterance that contains "remember" takes the
  Remember branch only if no branch before it matches. "remember the date" contains
  "date", whose branch comes earlier, so the date is told and no note is asked for.
\<close>

theorem C9_counterexample:
  "str_contains ''remember'' ''remember the date''
   \<and> match_intent ''remember the date'' = TellDate
   \<and> calls (snd (parse_and_execute ''remember the date'' (world0 (sconst WaitTimeoutError) (sconst []))))
       = [Call_tell_date]"
  by (simp add: match_intent_def parse_and_execute_def world0_def io_defs handler_defs)

text \<open>
  C9, amended. An utterance containing "remember" never takes the RecallMemory branch, and
  it takes the Remember branch (one prompt for the note, then \<^verbatim>\<open>remember_to_file\<close>)
  whenever it contains no trigger word of an earlier branch. The RecallMemory branch is
  taken exactly by the utterances that contain "do you know anything" or
  "what did i tell you" and contain neither "remember" nor a trigger word of an earlier
  branch; it calls \<^verbatim>\<open>read_memory\<close>.
\<close>

theorem C9_remember_before_recall:
  "(str_contains ''remember'' q \<longrightarrow>
      match_intent q \<noteq> RecallMemory
      \<and> (no_earlier_trigger q \<longrightarrow>
            match_intent q = Remember
            \<and> parse_and_execute q w
                = (True,
                   remember_to_file (fst (take_command (speak ''What should I remember?'' w)))
                     ''data.txt'' (snd (take_command (speak ''What should I remember?'' w))))))
   \<and> (match_intent q = RecallMemory \<longleftrightarrow>
        (str_contains ''do you know anything'' q \<or> str_contains ''what did i tell you'' q)
        \<and> \<not> str_contains ''remember'' q \<and> no_earlier_trigger q)
   \<and> (match_intent q = RecallMemory \<longrightarrow>
        parse_and_execute q w = (True, read_memory ''data.txt'' w))"
proof -
  have r1: "str_contains ''what do you remember'' q \<Longrightarrow> str_contains ''remember'' q"
    using str_contains_append [of "''what do you ''" "''remember''" "[]" q] by simp
  have r2: "str_contains ''remember that'' q \<Longrightarrow> str_contains ''remember'' q"
    using str_contains_append [of "[]" "''remember''" "'' that''" q] by simp
  have iff: "match_intent q = RecallMemory \<longleftrightarrow>
        (str_contains ''do you know anything'' q \<or> str_contains ''what did i tell you'' q)
        \<and> \<not> str_contains ''remember'' q \<and> no_earlier_trigger q"
  proof (cases "no_earlier_trigger q")
    case True
    then show ?thesis
      using r1 r2 by (auto simp: match_intent_no_earlier)
  next
    case False
    then show ?thesis
      using match_intent_later [of q] by auto
  qed
  have rem: "str_contains ''remember'' q \<Longrightarrow> no_earlier_trigger q \<Longrightarrow> match_intent q = Remember"
    by (simp add: match_intent_no_earlier)
  have ne: "match_intent q = Remember \<or> match_intent q = RecallMemory \<Longrightarrow> q \<noteq> []"
    by (auto simp: match_intent_empty)
  have prem: "match_intent q = Remember \<Longrightarrow>
      parse_and_execute q w
        = (True,
           remember_to_file (fst (take_command (speak ''What should I remember?'' w)))
             ''data.txt'' (snd (take_command (speak ''What should I remember?'' w))))"
    using ne by (simp add: parse_and_execute_decomp run_intent_def split: prod.splits)
  have prec: "match_intent q = RecallMemory \<Longrightarrow>
      parse_and_execute q w = (True, read_memory ''data.txt'' w)"
    using ne by (simp add: parse_and_execute_decomp run_intent_def)
  show ?thesis
    using iff rem prem prec by blast
qed

text \<open>
  "what do you remember" saves a note; "what did i tell you" reads the memory.
\<close>

theorem C9_remember_before_recall_witness:
  "str_contains ''remember'' ''what do you remember''
   \<and> no_earlier_trigger ''what do you remember''
   \<and> match_intent ''what do you remember'' = Remember
   \<and> calls (snd (parse_and_execute ''what do you remember''
               (world0 (sconst WaitTimeoutError) (''buy milk'' ## sconst []))))
       = [Call_remember_to_file ''buy milk'' ''data.txt'']
   \<and> match_intent ''what did i tell you'' = RecallMemory
   \<and> parse_and_execute ''what did i tell you'' (world0 (sconst WaitTimeoutError) (sconst []))
       = (True, read_memory ''data.txt'' (world0 (sconst WaitTimeoutError) (sconst [])))"
proof -
  let ?w = "world0 (sconst WaitTimeoutError) (''buy milk'' ## sconst [])"
  let ?v = "world0 (sconst WaitTimeoutError) (sconst [])"
  have h1: "str_contains ''remember'' ''what do you remember''" by simp
  have h2: "no_earlier_trigger ''what do you remember''"
    by (simp add: no_earlier_trigger_def earlier_than_remember_def)
  have h3: "match_intent ''what did i tell you'' = RecallMemory"
    by (simp add: match_intent_def)
  have n: "fst (take_command (speak ''What should I remember?'' ?w)) = ''buy milk''"
    by (simp add: world0_def io_defs str_defs)
  have c: "calls (snd (take_command (speak ''What should I remember?'' ?w))) = []"
    by (simp add: calls_take_command) (simp add: world0_def speak_def)
  have f: "\<not> fs_fault (snd (take_command (speak ''What should I remember?'' ?w)))"
    by (simp add: world0_def io_defs)
  show ?thesis
    using h1 h2 h3 n c f C9_remember_before_recall [of "''what do you remember''" ?w]
      C9_remember_before_recall [of "''what did i tell you''" ?v]
    by (simp add: remember_to_file_def speak_def called_def)
qed

subsection \<open>C10: remembering and recalling\<close>



end
